theory Spec2Isabelle
  imports Complex_Main "HOL-Library.Word"
begin

unbundle bit_operations_syntax

section \<open>Data model of airpods.py\<close>

text \<open>
  A Python \<open>bytes\<close> object is a list of 8-bit words. Python integers are \<open>int\<close>.
  The output printed when \<open>debug\<close> is set is not modelled: it returns nothing and
  changes no attribute. What the program reads from outside (the advertisements of a scan,
  the clock) is a parameter of the function that reads it.
\<close>

type_synonym byte = "8 word"
type_synonym bytes = "byte list"

text \<open>
  The exceptions the modelled code can raise. Every one of them is a subclass of
  \<open>Exception\<close>, so every \<open>except Exception\<close> handler of the source catches it.
\<close>

datatype py_exception = IndexError | KeyError | UnicodeDecodeError | ValueError

text \<open>
  The dictionaries the source returns, as a JSON-like value. A dictionary is an association
  list in insertion order. \<open>JExcStr e\<close> stands for the string \<open>str(e)\<close> of a caught
  exception \<open>e\<close>; the text of the message is not modelled.
\<close>

datatype json =
    JNull
  | JBool bool
  | JInt int
  | JStr string
  | JExcStr py_exception
  | JDict "(string \<times> json) list"

text \<open>\<open>d[k]\<close> on a dictionary: \<open>KeyError\<close> when the key is absent.\<close>

fun dict_getitem :: "json \<Rightarrow> string \<Rightarrow> py_exception + json" where
  "dict_getitem (JDict kvs) k = (case map_of kvs k of Some v \<Rightarrow> Inr v | None \<Rightarrow> Inl KeyError)"
| "dict_getitem _ k = Inl KeyError"

text \<open>The keys of a dictionary, and the lookup \<open>d.get(k)\<close>.\<close>

fun dict_keys :: "json \<Rightarrow> string list" where
  "dict_keys (JDict kvs) = map fst kvs"
| "dict_keys _ = []"

fun dict_get :: "json \<Rightarrow> string \<Rightarrow> json option" where
  "dict_get (JDict kvs) k = map_of kvs k"
| "dict_get _ k = None"

text \<open>The bleak objects handed to the detection callback.\<close>

record device =
  address :: string
  name :: "string option"

record advertisement_data =
  rssi :: int
  manufacturer_data :: "int \<rightharpoonup> bytes"

text \<open>
  The instance attributes of \<open>AirPodsMonitor\<close>. \<open>MIN_RSSI\<close> is the class attribute that
  \<open>main\<close> overwrites on the instance with the value of \<open>--min-rssi\<close>.
\<close>

record monitor =
  debug :: bool
  MIN_RSSI :: real
  found_device :: "device option"
  found_data :: "bytes option"

definition AIRPODS_MANUFACTURER :: int where
  "AIRPODS_MANUFACTURER = 76"

text \<open>\<open>AirPodsMonitor(debug)\<close>: the class attribute \<open>MIN_RSSI = -70\<close> and \<open>__init__\<close>.\<close>

definition init_monitor :: "bool \<Rightarrow> monitor" where
  "init_monitor dbg =
     \<lparr>debug = dbg, MIN_RSSI = - 70, found_device = None, found_data = None\<rparr>"

text \<open>
  What the program does besides returning values: one call of \<open>find_airpods\<close> (a scan
  session), one \<open>asyncio.sleep\<close> of \<open>get_status\<close>, one call of the battery decoder.
\<close>

datatype event = Find_airpods | Sleep nat | Decode_battery bytes

section \<open>Byte access\<close>

text \<open>\<open>data[i]\<close> on bytes with a non-negative index: \<open>IndexError\<close> out of range.\<close>

definition getitem :: "bytes \<Rightarrow> nat \<Rightarrow> py_exception + byte" where
  "getitem data i = (if i < length data then Inr (data ! i) else Inl IndexError)"

text \<open>The shape test \<open>len(data) == 27 and data[0] == 0x12\<close>, with its short circuit.\<close>

definition shape_ok :: "bytes \<Rightarrow> bool" where
  "shape_ok data = (if length data = 27 then getitem data 0 = Inr 0x12 else False)"

section \<open>The battery decoder\<close>

text \<open>The dictionary of the \<open>try\<close> block and the one of the \<open>except\<close> block.\<close>

definition battery_dict :: "int \<Rightarrow> bool \<Rightarrow> json" where
  "battery_dict battery_value charging =
     JDict [(''left'', JInt battery_value),
            (''right'', JInt battery_value),
            (''case'', JNull),
            (''charging'', JDict [(''left'', JBool charging),
                                  (''right'', JBool charging),
                                  (''case'', JNull)])]"

text \<open>The body of the \<open>try\<close> block of \<open>decode_airpods_max_battery\<close>.\<close>

definition decode_airpods_max_battery_try :: "bytes \<Rightarrow> py_exception + json" where
  "decode_airpods_max_battery_try data =
     (case getitem data 12 of
        Inl e \<Rightarrow> Inl e
      | Inr battery_byte \<Rightarrow>
          (let battery_value = uint (battery_byte AND 0x0F) in
           case getitem data 14 of
             Inl e \<Rightarrow> Inl e
           | Inr b14 \<Rightarrow>
               (let charging = (b14 AND 0x80 \<noteq> 0) in
                Inr (battery_dict battery_value charging))))"

text \<open>
  \<open>decode_airpods_max_battery\<close>: the \<open>try\<close> block, and the handler that turns every
  exception into the dictionary with \<open>-1\<close>. The result is a sum so that an exception
  leaving the function would be a value \<open>Inl\<close>.
\<close>

definition decode_airpods_max_battery :: "monitor \<Rightarrow> bytes \<Rightarrow> py_exception + json" where
  "decode_airpods_max_battery self data =
     (case decode_airpods_max_battery_try data of
        Inr r \<Rightarrow> Inr r
      | Inl e \<Rightarrow> Inr (battery_dict (- 1) False))"

section \<open>Hexadecimal text\<close>

text \<open>\<open>binascii.hexlify\<close>: two lower-case hexadecimal digits per byte, as ASCII bytes.\<close>

definition hexdigit :: "nat \<Rightarrow> nat" where
  "hexdigit n = (if n < 10 then 48 + n else 87 + n)"

fun hexlify :: "bytes \<Rightarrow> bytes" where
  "hexlify [] = []"
| "hexlify (b # bs) =
     of_nat (hexdigit (unat b div 16)) # of_nat (hexdigit (unat b mod 16)) # hexlify bs"

text \<open>
  \<open>hex_data.decode('utf-8')\<close>: the code points of a well-formed UTF-8 byte sequence,
  \<open>UnicodeDecodeError\<close> otherwise.
\<close>

definition cont :: "byte \<Rightarrow> bool" where
  "cont b = (0x80 \<le> b \<and> b \<le> 0xBF)"

text \<open>
  The second byte of a sequence is restricted after four lead bytes, which excludes
  overlong forms, surrogates and code points above \<open>0x10FFFF\<close>.
\<close>

definition second_ok :: "byte \<Rightarrow> byte \<Rightarrow> bool" where
  "second_ok b b1 =
     (if b = 0xE0 then 0xA0 \<le> b1
      else if b = 0xED then b1 \<le> 0x9F
      else if b = 0xF0 then 0x90 \<le> b1
      else if b = 0xF4 then b1 \<le> 0x8F
      else True)"

definition tail_bits :: "byte \<Rightarrow> nat" where
  "tail_bits b = unat (b AND 0x3F)"

definition cons_ok :: "nat \<Rightarrow> py_exception + nat list \<Rightarrow> py_exception + nat list" where
  "cons_ok c r = (case r of Inl e \<Rightarrow> Inl e | Inr cs \<Rightarrow> Inr (c # cs))"

fun utf8_decode :: "bytes \<Rightarrow> py_exception + nat list" where
  "utf8_decode [] = Inr []"
| "utf8_decode (b # bs) =
     (if b < 0x80 then cons_ok (unat b) (utf8_decode bs)
      else if 0xC2 \<le> b \<and> b \<le> 0xDF then
        (case bs of
           b1 # r \<Rightarrow>
             if cont b1
             then cons_ok (unat (b AND 0x1F) * 64 + tail_bits b1) (utf8_decode r)
             else Inl UnicodeDecodeError
         | _ \<Rightarrow> Inl UnicodeDecodeError)
      else if 0xE0 \<le> b \<and> b \<le> 0xEF then
        (case bs of
           b1 # b2 # r \<Rightarrow>
             if cont b1 \<and> cont b2 \<and> second_ok b b1
             then cons_ok (unat (b AND 0x0F) * 4096 + tail_bits b1 * 64 + tail_bits b2)
                    (utf8_decode r)
             else Inl UnicodeDecodeError
         | _ \<Rightarrow> Inl UnicodeDecodeError)
      else if 0xF0 \<le> b \<and> b \<le> 0xF4 then
        (case bs of
           b1 # b2 # b3 # r \<Rightarrow>
             if cont b1 \<and> cont b2 \<and> cont b3
                \<and> second_ok b b1
             then cons_ok (unat (b AND 0x07) * 262144 + tail_bits b1 * 4096
                            + tail_bits b2 * 64 + tail_bits b3)
                    (utf8_decode r)
             else Inl UnicodeDecodeError
         | _ \<Rightarrow> Inl UnicodeDecodeError)
      else Inl UnicodeDecodeError)"

text \<open>
  \<open>bytes.fromhex\<close> on a string given by its code points: ASCII whitespace is skipped
  between bytes, every byte is two hexadecimal digits of either case, anything else is a
  \<open>ValueError\<close>.
\<close>

definition isspace :: "nat \<Rightarrow> bool" where
  "isspace c = (c = 32 \<or> (9 \<le> c \<and> c \<le> 13))"

definition hexval :: "nat \<Rightarrow> nat option" where
  "hexval c =
     (if 48 \<le> c \<and> c \<le> 57 then Some (c - 48)
      else if 97 \<le> c \<and> c \<le> 102 then Some (c - 87)
      else if 65 \<le> c \<and> c \<le> 70 then Some (c - 55)
      else None)"

definition cons_byte :: "byte \<Rightarrow> py_exception + bytes \<Rightarrow> py_exception + bytes" where
  "cons_byte b r = (case r of Inl e \<Rightarrow> Inl e | Inr bs \<Rightarrow> Inr (b # bs))"

fun fromhex :: "nat list \<Rightarrow> py_exception + bytes" where
  "fromhex [] = Inr []"
| "fromhex [c] = (if isspace c then Inr [] else Inl ValueError)"
| "fromhex (c # d # cs) =
     (if isspace c then fromhex (d # cs)
      else case hexval c of
        None \<Rightarrow> Inl ValueError
      | Some hi \<Rightarrow>
          (case hexval d of
             None \<Rightarrow> Inl ValueError
           | Some lo \<Rightarrow> cons_byte (of_nat (hi * 16 + lo)) (fromhex cs)))"

text \<open>The first statement of \<open>decode_status\<close>: \<open>bytes.fromhex(hex_data.decode('utf-8'))\<close>.\<close>

definition parse_hex :: "bytes \<Rightarrow> py_exception + bytes" where
  "parse_hex hex_data =
     (case utf8_decode hex_data of Inl e \<Rightarrow> Inl e | Inr s \<Rightarrow> fromhex s)"

section \<open>The detection callback and the scan session\<close>

text \<open>
  \<open>detection_callback\<close>: the debug output apart, the callback looks up the Apple
  manufacturer data and stores device and payload when the shape test passes.
\<close>

definition detection_callback :: "monitor \<Rightarrow> device \<Rightarrow> advertisement_data \<Rightarrow> monitor" where
  "detection_callback self dev advertisement =
     (case manufacturer_data advertisement AIRPODS_MANUFACTURER of
        None \<Rightarrow> self
      | Some data \<Rightarrow>
          if shape_ok data
          then self\<lparr>found_device := Some dev, found_data := Some data\<rparr>
          else self)"

text \<open>
  What the scanner does during one call of \<open>find_airpods\<close>: the advertisements it hands
  to the callback, in order, and whether \<open>start\<close>, \<open>sleep\<close> or \<open>stop\<close> raises.
\<close>

record session =
  advertisements :: "(device \<times> advertisement_data) list"
  scanner_raises :: bool

fun run_callbacks :: "monitor \<Rightarrow> (device \<times> advertisement_data) list \<Rightarrow> monitor" where
  "run_callbacks self [] = self"
| "run_callbacks self ((dev, advertisement) # rest) =
     run_callbacks (detection_callback self dev advertisement) rest"

text \<open>
  \<open>find_airpods\<close>: \<open>None\<close> when the scanner raises or when \<open>self.found_data\<close> is falsy
  (\<open>None\<close> or empty), the hexadecimal text of \<open>self.found_data\<close> otherwise.
\<close>

definition find_airpods :: "monitor \<Rightarrow> session \<Rightarrow> bytes option \<times> monitor" where
  "find_airpods self s =
     (let self' = run_callbacks self (advertisements s) in
      if scanner_raises s then (None, self')
      else case found_data self' of
             None \<Rightarrow> (None, self')
           | Some data \<Rightarrow> if data = [] then (None, self') else (Some (hexlify data), self'))"

section \<open>Decoding the status\<close>

definition unsupported :: json where
  "unsupported = JDict [(''status'', JInt 0), (''error'', JStr ''Unsupported device type'')]"

definition not_found :: json where
  "not_found = JDict [(''status'', JInt 0), (''error'', JStr ''AirPods Max not found'')]"

definition failed :: "py_exception \<Rightarrow> json" where
  "failed e = JDict [(''status'', JInt 0), (''error'', JExcStr e)]"

text \<open>\<open>hex_data.decode('utf-8') if self.debug else None\<close>.\<close>

definition raw_data :: "monitor \<Rightarrow> bytes \<Rightarrow> py_exception + json" where
  "raw_data self hex_data =
     (if debug self
      then case utf8_decode hex_data of
             Inl e \<Rightarrow> Inl e
           | Inr s \<Rightarrow> Inr (JStr (map char_of s))
      else Inr JNull)"

text \<open>
  The dictionary built after the battery decoder has returned \<open>battery_info\<close>; \<open>now\<close>
  is the formatted reading of the clock.
\<close>

definition status_dict :: "monitor \<Rightarrow> string \<Rightarrow> bytes \<Rightarrow> json \<Rightarrow> py_exception + json" where
  "status_dict self now hex_data battery_info =
     (case dict_getitem battery_info ''left'' of
        Inl e \<Rightarrow> Inl e
      | Inr l \<Rightarrow>
     (case dict_getitem battery_info ''right'' of
        Inl e \<Rightarrow> Inl e
      | Inr r \<Rightarrow>
     (case dict_getitem battery_info ''charging'' of
        Inl e \<Rightarrow> Inl e
      | Inr c \<Rightarrow>
     (case raw_data self hex_data of
        Inl e \<Rightarrow> Inl e
      | Inr raw \<Rightarrow>
          Inr (JDict [(''status'', JInt 1),
                      (''model'', JStr ''AirPods Max''),
                      (''battery'', JDict [(''left'', l), (''right'', r), (''case'', JNull)]),
                      (''charging'', c),
                      (''timestamp'', JStr now),
                      (''raw_data'', raw)])))))"

text \<open>
  The \<open>try\<close> block of \<open>decode_status\<close>, with the calls of the battery decoder it makes.
\<close>

definition decode_status_try ::
  "monitor \<Rightarrow> string \<Rightarrow> bytes \<Rightarrow> (py_exception + json) \<times> event list" where
  "decode_status_try self now hex_data =
     (case parse_hex hex_data of
        Inl e \<Rightarrow> (Inl e, [])
      | Inr data \<Rightarrow>
          if shape_ok data
          then (case decode_airpods_max_battery self data of
                  Inl e \<Rightarrow> (Inl e, [Decode_battery data])
                | Inr battery_info \<Rightarrow>
                    (status_dict self now hex_data battery_info, [Decode_battery data]))
          else (Inr unsupported, []))"

definition decode_status :: "monitor \<Rightarrow> string \<Rightarrow> bytes \<Rightarrow> json \<times> event list" where
  "decode_status self now hex_data =
     (case decode_status_try self now hex_data of
        (Inr r, tr) \<Rightarrow> (r, tr)
      | (Inl e, tr) \<Rightarrow> (failed e, tr))"

section \<open>The retry loop\<close>

text \<open>
  \<open>get_status\<close>: the loop over \<open>range(max_attempts)\<close>. \<open>src attempt\<close> is what the
  scanner does during the scan of that attempt. The result is the returned dictionary, the
  events in order, and the monitor as the call leaves it.
\<close>

fun get_status_loop ::
  "(nat \<Rightarrow> session) \<Rightarrow> string \<Rightarrow> int \<Rightarrow> monitor \<Rightarrow> nat list \<Rightarrow> json \<times> event list \<times> monitor" where
  "get_status_loop src now max_attempts self [] = (not_found, [], self)"
| "get_status_loop src now max_attempts self (attempt # rest) =
     (case find_airpods self (src attempt) of
        (Some hex_data, self') \<Rightarrow>
          (case decode_status self' now hex_data of
             (r, tr) \<Rightarrow> (r, Find_airpods # tr, self'))
      | (None, self') \<Rightarrow>
          (case get_status_loop src now max_attempts self' rest of
             (r, tr, self'') \<Rightarrow>
               (r,
                Find_airpods # (if int attempt < max_attempts - 1 then [Sleep 1] else []) @ tr,
                self'')))"

definition get_status ::
  "monitor \<Rightarrow> (nat \<Rightarrow> session) \<Rightarrow> string \<Rightarrow> int \<Rightarrow> json \<times> event list \<times> monitor" where
  "get_status self src now max_attempts =
     get_status_loop src now max_attempts self [0..<nat max_attempts]"

text \<open>An advertisement that passes the vendor filter and the shape test.\<close>

definition qualifying :: "advertisement_data \<Rightarrow> bool" where
  "qualifying advertisement =
     (case manufacturer_data advertisement AIRPODS_MANUFACTURER of
        None \<Rightarrow> False
      | Some data \<Rightarrow> shape_ok data)"


text \<open>A payload of 27 bytes with marker \<open>0x12\<close> and the given bytes at offsets 12 and 14.\<close>

definition max_payload :: "byte \<Rightarrow> byte \<Rightarrow> bytes" where
  "max_payload b12 b14 =
     [0x12, 0, 0, 0, 0, 0, 0, 0, 0, 0, 0, 0, b12, 0, b14,
      0, 0, 0, 0, 0, 0, 0, 0, 0, 0, 0, 0]"


text \<open>An advertisement with Apple manufacturer data only, and a device with an address.\<close>

definition apple_advertisement :: "int \<Rightarrow> bytes \<Rightarrow> advertisement_data" where
  "apple_advertisement r data =
     \<lparr>rssi = r, manufacturer_data = [AIRPODS_MANUFACTURER \<mapsto> data]\<rparr>"

definition device_at :: "string \<Rightarrow> device" where
  "device_at a = \<lparr>address = a, name = None\<rparr>"

text \<open>A scan during which the scanner hands over the given advertisements and does not raise.\<close>

definition scan_of :: "(device \<times> advertisement_data) list \<Rightarrow> session" where
  "scan_of ads = \<lparr>advertisements = ads, scanner_raises = False\<rparr>"

text \<open>The \<open>error\<close> entry of a dictionary is there and is a non-empty string.\<close>

definition error_populated :: "json \<Rightarrow> bool" where
  "error_populated r =
     (case dict_get r ''error'' of
        Some (JStr s) \<Rightarrow> s \<noteq> []
      | Some (JExcStr e) \<Rightarrow> True
      | _ \<Rightarrow> False)"



text \<open>Fifteen zero bytes: neither 27 bytes long nor marked \<open>0x12\<close>.\<close>

definition zeros15 :: bytes where
  "zeros15 = [0, 0, 0, 0, 0, 0, 0, 0, 0, 0, 0, 0, 0, 0, 0]"

section \<open>Properties of the battery decoder\<close>

lemma low_nibble_range: "0 \<le> uint ((b :: byte) AND 0x0F) \<and> uint (b AND 0x0F) \<le> 15"
proof -
  have "b AND 0x0F \<le> 0x0F"
    by (rule word_and_le1)
  then have "uint (b AND 0x0F) \<le> uint (0x0F :: byte)"
    by (simp add: word_le_def)
  then show ?thesis by simp
qed

lemma decode_try_short:
  "length data \<le> 14 \<Longrightarrow> decode_airpods_max_battery_try data = Inl IndexError"
  by (simp add: decode_airpods_max_battery_try_def getitem_def Let_def)

lemma decode_try_long:
  "14 < length data \<Longrightarrow>
   decode_airpods_max_battery_try data =
     Inr (battery_dict (uint (data ! 12 AND 0x0F)) (data ! 14 AND 0x80 \<noteq> 0))"
  by (simp add: decode_airpods_max_battery_try_def getitem_def Let_def)

lemma decode_cases:
  "decode_airpods_max_battery self data =
     Inr (if length data \<le> 14 then battery_dict (- 1) False
          else battery_dict (uint (data ! 12 AND 0x0F)) (data ! 14 AND 0x80 \<noteq> 0))"
  by (simp add: decode_airpods_max_battery_def decode_try_short decode_try_long)

section \<open>Hexadecimal text parses back\<close>

lemma hexval_hexdigit: "n < 16 \<Longrightarrow> hexval (hexdigit n) = Some n"
  by (auto simp: hexval_def hexdigit_def)

lemma hexdigit_not_space: "n < 16 \<Longrightarrow> \<not> isspace (hexdigit n)"
  by (auto simp: isspace_def hexdigit_def)

lemma hexdigit_ascii: "n < 16 \<Longrightarrow> hexdigit n < 128"
  by (simp add: hexdigit_def)

lemma unat_hexdigit:
  assumes "n < 16"
  shows "unat (of_nat (hexdigit n) :: byte) = hexdigit n"
proof -
  have "hexdigit n < 256"
    using hexdigit_ascii [OF assms] by simp
  then show ?thesis
    by (simp add: unat_of_nat)
qed

lemma hexdigit_byte_ascii:
  assumes "n < 16"
  shows "(of_nat (hexdigit n) :: byte) < 0x80"
proof -
  have "unat (of_nat (hexdigit n) :: byte) < 128"
    using hexdigit_ascii [OF assms] unat_hexdigit [OF assms] by simp
  then show ?thesis
    by (simp add: word_less_nat_alt)
qed

lemma nibbles: "unat (b :: byte) div 16 < 16" "unat b mod 16 < 16"
proof -
  have "unat b < 256"
    using unsigned_less [of b, where ?'a = nat] by simp
  then show "unat b div 16 < 16" by simp
  show "unat b mod 16 < 16" by simp
qed

lemma utf8_decode_hexlify: "utf8_decode (hexlify d) = Inr (map unat (hexlify d))"
  by (induction d) (simp_all add: hexdigit_byte_ascii nibbles cons_ok_def)

lemma fromhex_hexlify: "fromhex (map unat (hexlify d)) = Inr d"
proof (induction d)
  case Nil
  show ?case by simp
next
  case (Cons b bs)
  have "of_nat (unat b div 16 * 16 + unat b mod 16) = b"
    by simp
  with Cons show ?case
    by (simp add: unat_hexdigit hexval_hexdigit hexdigit_not_space nibbles cons_byte_def)
qed

lemma parse_hex_hexlify: "parse_hex (hexlify d) = Inr d"
  by (simp add: parse_hex_def utf8_decode_hexlify fromhex_hexlify)

lemma decode_status_hexlify_reject:
  "\<not> shape_ok d \<Longrightarrow> decode_status self now (hexlify d) = (unsupported, [])"
  by (simp add: decode_status_def decode_status_try_def parse_hex_hexlify)

section \<open>Status decoding, the callback and the loop\<close>

lemma shape_ok_iff: "shape_ok d \<longleftrightarrow> length d = 27 \<and> d ! 0 = 0x12"
  by (auto simp: shape_ok_def getitem_def)

lemma shape_ok_nonempty: "shape_ok d \<Longrightarrow> d \<noteq> []"
  by (auto simp: shape_ok_iff)

lemma parse_hex_utf8: "parse_hex h = Inr d \<Longrightarrow> \<exists>s. utf8_decode h = Inr s"
  by (cases "utf8_decode h") (simp_all add: parse_hex_def)

lemma raw_data_ok: "parse_hex h = Inr d \<Longrightarrow> \<exists>raw. raw_data self h = Inr raw"
  using parse_hex_utf8 [of h d] by (auto simp: raw_data_def)

lemma decode_status_exc:
  "parse_hex h = Inl e \<Longrightarrow> decode_status self now h = (failed e, [])"
  by (simp add: decode_status_def decode_status_try_def)

lemma decode_status_unsupported:
  "parse_hex h = Inr d \<Longrightarrow> \<not> shape_ok d \<Longrightarrow> decode_status self now h = (unsupported, [])"
  by (simp add: decode_status_def decode_status_try_def)

lemma decode_status_ok:
  assumes "parse_hex h = Inr d" and "shape_ok d"
  shows "\<exists>raw. decode_status self now h =
           (JDict [(''status'', JInt 1),
                   (''model'', JStr ''AirPods Max''),
                   (''battery'', JDict [(''left'', JInt (uint (d ! 12 AND 0x0F))),
                                        (''right'', JInt (uint (d ! 12 AND 0x0F))),
                                        (''case'', JNull)]),
                   (''charging'', JDict [(''left'', JBool (d ! 14 AND 0x80 \<noteq> 0)),
                                         (''right'', JBool (d ! 14 AND 0x80 \<noteq> 0)),
                                         (''case'', JNull)]),
                   (''timestamp'', JStr now),
                   (''raw_data'', raw)],
            [Decode_battery d])"
proof -
  obtain raw where raw: "raw_data self h = Inr raw"
    using raw_data_ok [OF assms(1)] by blast
  have len: "\<not> length d \<le> 14"
    using assms(2) by (simp add: shape_ok_iff)
  have "decode_airpods_max_battery self d =
          Inr (battery_dict (uint (d ! 12 AND 0x0F)) (d ! 14 AND 0x80 \<noteq> 0))"
    using len by (simp add: decode_cases)
  then have "decode_status self now h =
           (JDict [(''status'', JInt 1),
                   (''model'', JStr ''AirPods Max''),
                   (''battery'', JDict [(''left'', JInt (uint (d ! 12 AND 0x0F))),
                                        (''right'', JInt (uint (d ! 12 AND 0x0F))),
                                        (''case'', JNull)]),
                   (''charging'', JDict [(''left'', JBool (d ! 14 AND 0x80 \<noteq> 0)),
                                         (''right'', JBool (d ! 14 AND 0x80 \<noteq> 0)),
                                         (''case'', JNull)]),
                   (''timestamp'', JStr now),
                   (''raw_data'', raw)],
            [Decode_battery d])"
    using assms raw
    by (simp add: decode_status_def decode_status_try_def status_dict_def battery_dict_def)
  then show ?thesis by blast
qed


lemma detection_callback_qualifying:
  "manufacturer_data adv AIRPODS_MANUFACTURER = Some data \<Longrightarrow> shape_ok data \<Longrightarrow>
   detection_callback self dev adv = self\<lparr>found_device := Some dev, found_data := Some data\<rparr>"
  by (simp add: detection_callback_def)

lemma detection_callback_other:
  "\<not> qualifying adv \<Longrightarrow> detection_callback self dev adv = self"
  by (simp add: detection_callback_def qualifying_def split: option.splits)

lemma run_callbacks_other:
  "\<forall>(dev, adv) \<in> set ads. \<not> qualifying adv \<Longrightarrow> run_callbacks self ads = self"
  by (induction ads arbitrary: self) (auto simp: detection_callback_other)

lemma run_callbacks_append:
  "run_callbacks self (xs @ ys) = run_callbacks (run_callbacks self xs) ys"
  by (induction xs arbitrary: self) auto


lemma decode_status_cases:
  "decode_status self now h = (unsupported, []) \<or>
   (\<exists>e. decode_status self now h = (failed e, [])) \<or>
   (\<exists>r d. decode_status self now h = (r, [Decode_battery d])
          \<and> dict_get r ''status'' = Some (JInt 1))"
proof (cases "parse_hex h")
  case (Inl e)
  then have "decode_status self now h = (failed e, [])"
    by (rule decode_status_exc)
  then show ?thesis by blast
next
  case (Inr d)
  show ?thesis
  proof (cases "shape_ok d")
    case True
    obtain raw where "decode_status self now h =
           (JDict [(''status'', JInt 1),
                   (''model'', JStr ''AirPods Max''),
                   (''battery'', JDict [(''left'', JInt (uint (d ! 12 AND 0x0F))),
                                        (''right'', JInt (uint (d ! 12 AND 0x0F))),
                                        (''case'', JNull)]),
                   (''charging'', JDict [(''left'', JBool (d ! 14 AND 0x80 \<noteq> 0)),
                                         (''right'', JBool (d ! 14 AND 0x80 \<noteq> 0)),
                                         (''case'', JNull)]),
                   (''timestamp'', JStr now),
                   (''raw_data'', raw)],
            [Decode_battery d])"
      using decode_status_ok [OF Inr True] by blast
    then show ?thesis by simp
  next
    case False
    then show ?thesis using Inr by (simp add: decode_status_unsupported)
  qed
qed



lemma loop_result:
  "fst (get_status_loop src now n self attempts) = not_found \<or>
   (\<exists>m h. fst (get_status_loop src now n self attempts) = fst (decode_status m now h))"
proof (induction attempts arbitrary: self)
  case Nil
  show ?case by simp
next
  case (Cons a rest)
  obtain hex self' where f: "find_airpods self (src a) = (hex, self')"
    by (cases "find_airpods self (src a)")
  show ?case
  proof (cases hex)
    case None
    then show ?thesis
      using f Cons.IH [of self'] by (auto split: prod.splits)
  next
    case (Some h)
    then have "fst (get_status_loop src now n self (a # rest)) = fst (decode_status self' now h)"
      using f by (simp split: prod.splits)
    then show ?thesis by blast
  qed
qed

lemma shape_ok_max_payload: "shape_ok (max_payload b12 b14)"
  by (simp add: shape_ok_iff max_payload_def)

lemma apple_advertisement_data:
  "manufacturer_data (apple_advertisement r data) AIRPODS_MANUFACTURER = Some data"
  by (simp add: apple_advertisement_def)

lemma qualifying_apple: "qualifying (apple_advertisement r data) = shape_ok data"
  by (simp add: qualifying_def apple_advertisement_data)

lemma status_zero_decode:
  assumes "dict_get (fst (decode_status self now h)) ''status'' = Some (JInt 0)"
  shows "error_populated (fst (decode_status self now h))
         \<and> dict_keys (fst (decode_status self now h)) = [''status'', ''error'']"
  using decode_status_cases [of self now h] assms
  by (auto simp: unsupported_def failed_def error_populated_def)













section \<open>The battery decoder on every input\<close>

text \<open>
  C1. For every payload of length 27 whose first byte is \<open>0x12\<close>, the battery decoder
  returns left = right = \<open>payload[12] & 0x0F\<close>, case = null, and charging left = right =
  \<open>(payload[14] & 0x80) != 0\<close> with charging case = null. In particular bytes \<open>0x05\<close> and
  \<open>0x80\<close> give 5 and charging, bytes \<open>0x0F\<close> and \<open>0x00\<close> give 15 and not charging.
\<close>

theorem battery_decoder_airpods_max:
  assumes "length d = 27" and "d ! 0 = 0x12"
  shows "decode_airpods_max_battery self d =
           Inr (JDict [(''left'', JInt (uint (d ! 12 AND 0x0F))),
                       (''right'', JInt (uint (d ! 12 AND 0x0F))),
                       (''case'', JNull),
                       (''charging'', JDict [(''left'', JBool (d ! 14 AND 0x80 \<noteq> 0)),
                                             (''right'', JBool (d ! 14 AND 0x80 \<noteq> 0)),
                                             (''case'', JNull)])])
         \<and> (d ! 12 = 0x05 \<and> d ! 14 = 0x80 \<longrightarrow>
              decode_airpods_max_battery self d =
                Inr (JDict [(''left'', JInt 5), (''right'', JInt 5), (''case'', JNull),
                            (''charging'', JDict [(''left'', JBool True),
                                                  (''right'', JBool True),
                                                  (''case'', JNull)])]))
         \<and> (d ! 12 = 0x0F \<and> d ! 14 = 0x00 \<longrightarrow>
              decode_airpods_max_battery self d =
                Inr (JDict [(''left'', JInt 15), (''right'', JInt 15), (''case'', JNull),
                            (''charging'', JDict [(''left'', JBool False),
                                                  (''right'', JBool False),
                                                  (''case'', JNull)])]))"
  using assms(1) by (simp add: decode_cases battery_dict_def)

text \<open>The two payloads of C1, decoded.\<close>

theorem battery_decoder_airpods_max_witness:
  "length (max_payload 0x05 0x80) = 27 \<and> max_payload 0x05 0x80 ! 0 = 0x12
   \<and> decode_airpods_max_battery (init_monitor False) (max_payload 0x05 0x80) =
        Inr (JDict [(''left'', JInt 5), (''right'', JInt 5), (''case'', JNull),
                    (''charging'', JDict [(''left'', JBool True),
                                          (''right'', JBool True),
                                          (''case'', JNull)])])
   \<and> length (max_payload 0x0F 0x00) = 27 \<and> max_payload 0x0F 0x00 ! 0 = 0x12
   \<and> decode_airpods_max_battery (init_monitor False) (max_payload 0x0F 0x00) =
        Inr (JDict [(''left'', JInt 15), (''right'', JInt 15), (''case'', JNull),
                    (''charging'', JDict [(''left'', JBool False),
                                          (''right'', JBool False),
                                          (''case'', JNull)])])"
  using battery_decoder_airpods_max [of "max_payload 0x05 0x80" "init_monitor False"]
        battery_decoder_airpods_max [of "max_payload 0x0F 0x00" "init_monitor False"]
  by (simp add: max_payload_def)

text \<open>
  The claim C5 as the specification states it (the result with \<open>-1\<close> on any malformed
  input, never a value such as 0) fails: the decoder checks neither the length nor the
  marker, and fifteen zero bytes, which fail the shape test, decode to battery 0.
\<close>

theorem malformed_decodes_to_zero:
  "length zeros15 = 15
   \<and> \<not> shape_ok zeros15
   \<and> decode_airpods_max_battery (init_monitor False) zeros15 =
       Inr (JDict [(''left'', JInt 0), (''right'', JInt 0), (''case'', JNull),
                   (''charging'', JDict [(''left'', JBool False),
                                         (''right'', JBool False),
                                         (''case'', JNull)])])"
  by (simp add: zeros15_def shape_ok_iff decode_cases battery_dict_def)

text \<open>
  C5, amended. On every byte sequence the battery decoder returns a dictionary and lets no
  exception out. When offset 12 or offset 14 is out of range (at most 14 bytes) the
  dictionary is the one with battery \<open>-1\<close> and charging false for left and right; on every
  longer input, of the right shape or not, it is the one with the low four bits of byte 12
  and the \<open>0x80\<close> bit of byte 14.
\<close>

theorem battery_decoder_total:
  "decode_airpods_max_battery self data =
     Inr (if length data \<le> 14
          then JDict [(''left'', JInt (- 1)), (''right'', JInt (- 1)), (''case'', JNull),
                      (''charging'', JDict [(''left'', JBool False),
                                            (''right'', JBool False),
                                            (''case'', JNull)])]
          else JDict [(''left'', JInt (uint (data ! 12 AND 0x0F))),
                      (''right'', JInt (uint (data ! 12 AND 0x0F))),
                      (''case'', JNull),
                      (''charging'', JDict [(''left'', JBool (data ! 14 AND 0x80 \<noteq> 0)),
                                            (''right'', JBool (data ! 14 AND 0x80 \<noteq> 0)),
                                            (''case'', JNull)])])"
  by (simp add: decode_cases battery_dict_def)

text \<open>
  A payload of 14 bytes, where offset 14 is missing, and one of 15 bytes with the wrong
  marker.
\<close>

theorem battery_decoder_total_witness:
  "decode_airpods_max_battery (init_monitor False)
        [0x12, 0, 0, 0, 0, 0, 0, 0, 0, 0, 0, 0, 0x05, 0] =
          Inr (JDict [(''left'', JInt (- 1)), (''right'', JInt (- 1)), (''case'', JNull),
                      (''charging'', JDict [(''left'', JBool False),
                                            (''right'', JBool False),
                                            (''case'', JNull)])])
   \<and> decode_airpods_max_battery (init_monitor False)
        [0x07, 0, 0, 0, 0, 0, 0, 0, 0, 0, 0, 0, 0x3A, 0, 0x80] =
          Inr (JDict [(''left'', JInt 10), (''right'', JInt 10), (''case'', JNull),
                      (''charging'', JDict [(''left'', JBool True),
                                            (''right'', JBool True),
                                            (''case'', JNull)])])"
  using battery_decoder_total
          [of "init_monitor False" "[0x12, 0, 0, 0, 0, 0, 0, 0, 0, 0, 0, 0, 0x05, 0]"]
        battery_decoder_total
          [of "init_monitor False" "[0x07, 0, 0, 0, 0, 0, 0, 0, 0, 0, 0, 0, 0x3A, 0, 0x80]"]
  by simp

text \<open>
  C10. On every byte sequence the result of the battery decoder has left equal to right,
  null for the case battery and the case charging flag, and a battery value that is
  \<open>-1\<close> or lies between 0 and 15.
\<close>

theorem battery_decoder_range:
  "\<exists>r v c. decode_airpods_max_battery self data = Inr r
     \<and> dict_get r ''left'' = Some (JInt v)
     \<and> dict_get r ''right'' = Some (JInt v)
     \<and> dict_get r ''case'' = Some JNull
     \<and> dict_get r ''charging'' = Some c
     \<and> dict_get c ''case'' = Some JNull
     \<and> (v = - 1 \<or> (0 \<le> v \<and> v \<le> 15))"
proof (cases "length data \<le> 14")
  case True
  then have "decode_airpods_max_battery self data = Inr (battery_dict (- 1) False)"
    by (simp add: decode_cases)
  then show ?thesis
    by (simp add: battery_dict_def)
next
  case False
  then have "decode_airpods_max_battery self data =
               Inr (battery_dict (uint (data ! 12 AND 0x0F)) (data ! 14 AND 0x80 \<noteq> 0))"
    by (simp add: decode_cases)
  then show ?thesis
    using low_nibble_range [of "data ! 12"] by (simp add: battery_dict_def)
qed

section \<open>Shape validation\<close>

text \<open>
  C2. A payload whose length is not 27, or whose first byte is not \<open>0x12\<close>, fails the
  shape test: the callback does not capture it, and \<open>decode_status\<close> on its hexadecimal
  text returns status 0 with the error \<open>Unsupported device type\<close> without calling the
  battery decoder (no \<open>Decode_battery\<close> event).
\<close>

theorem shape_validation_rejects:
  assumes "length d \<noteq> 27 \<or> d ! 0 \<noteq> 0x12"
  shows "\<not> shape_ok d
         \<and> decode_status self now (hexlify d) =
             (JDict [(''status'', JInt 0), (''error'', JStr ''Unsupported device type'')], [])
         \<and> (manufacturer_data adv AIRPODS_MANUFACTURER = Some d \<longrightarrow>
              detection_callback self dev adv = self)"
proof -
  have no: "\<not> shape_ok d"
    using assms by (auto simp: shape_ok_iff)
  have "decode_status self now (hexlify d) = (unsupported, [])"
    using no by (rule decode_status_hexlify_reject)
  then show ?thesis
    using no by (simp add: unsupported_def detection_callback_def)
qed

text \<open>
  A payload of two bytes with the right marker and the wrong length.
\<close>

theorem shape_validation_rejects_witness:
  "length [0x12 :: byte, 0x34] \<noteq> 27
   \<and> decode_status (init_monitor False) ''2024-01-01 00:00:00'' (hexlify [0x12, 0x34]) =
       (JDict [(''status'', JInt 0), (''error'', JStr ''Unsupported device type'')], [])
   \<and> manufacturer_data (apple_advertisement (- 50) [0x12, 0x34]) AIRPODS_MANUFACTURER
        = Some [0x12, 0x34]
   \<and> detection_callback (init_monitor False) (device_at ''AA:BB'')
        (apple_advertisement (- 50) [0x12, 0x34]) = init_monitor False"
  using shape_validation_rejects
          [of "[0x12, 0x34]" "init_monitor False" "''2024-01-01 00:00:00''"
              "apple_advertisement (- 50) [0x12, 0x34]" "device_at ''AA:BB''"]
  by (simp add: apple_advertisement_def)

section \<open>The hexadecimal round trip\<close>

text \<open>
  C9. The hexadecimal text that \<open>find_airpods\<close> returns for the captured payload parses
  back, at the start of \<open>decode_status\<close>, to exactly that payload; so the battery
  decoder is called on the bytes that were received.
\<close>

theorem hex_round_trip:
  "parse_hex (hexlify d) = Inr d
   \<and> (find_airpods self s = (Some hex_data, self') \<longrightarrow>
        (\<exists>data. found_data self' = Some data \<and> hex_data = hexlify data
                \<and> parse_hex hex_data = Inr data))
   \<and> (shape_ok d \<longrightarrow> snd (decode_status self now (hexlify d)) = [Decode_battery d])"
proof -
  have a: "parse_hex (hexlify d) = Inr d"
    by (rule parse_hex_hexlify)
  have b: "find_airpods self s = (Some hex_data, self') \<longrightarrow>
        (\<exists>data. found_data self' = Some data \<and> hex_data = hexlify data
                \<and> parse_hex hex_data = Inr data)"
    by (auto simp: find_airpods_def Let_def parse_hex_hexlify split: if_splits option.splits)
  have c: "shape_ok d \<longrightarrow> snd (decode_status self now (hexlify d)) = [Decode_battery d]"
  proof
    assume "shape_ok d"
    then show "snd (decode_status self now (hexlify d)) = [Decode_battery d]"
      using decode_status_ok [OF a, of self now] by auto
  qed
  show ?thesis using a b c by blast
qed

text \<open>
  One scan that delivers an AirPods Max payload, and the decoding of its text.
\<close>

theorem hex_round_trip_witness:
  "find_airpods (init_monitor False)
     (scan_of [(device_at ''AA:BB'', apple_advertisement (- 50) (max_payload 0x05 0x80))]) =
       (Some (hexlify (max_payload 0x05 0x80)),
        (init_monitor False)\<lparr>found_device := Some (device_at ''AA:BB''),
                               found_data := Some (max_payload 0x05 0x80)\<rparr>)
   \<and> parse_hex (hexlify (max_payload 0x05 0x80)) = Inr (max_payload 0x05 0x80)
   \<and> shape_ok (max_payload 0x05 0x80)
   \<and> snd (decode_status (init_monitor False) ''2024-01-01 00:00:00''
             (hexlify (max_payload 0x05 0x80))) = [Decode_battery (max_payload 0x05 0x80)]"
proof -
  have f: "find_airpods (init_monitor False)
     (scan_of [(device_at ''AA:BB'', apple_advertisement (- 50) (max_payload 0x05 0x80))]) =
       (Some (hexlify (max_payload 0x05 0x80)),
        (init_monitor False)\<lparr>found_device := Some (device_at ''AA:BB''),
                               found_data := Some (max_payload 0x05 0x80)\<rparr>)"
    using shape_ok_nonempty [OF shape_ok_max_payload [of "0x05" "0x80"]]
    by (simp add: find_airpods_def scan_of_def detection_callback_qualifying
          apple_advertisement_data shape_ok_max_payload)
  show ?thesis
    using f shape_ok_max_payload [of "0x05" "0x80"]
      hex_round_trip [where d = "max_payload 0x05 0x80" and self = "init_monitor False"
        and now = "''2024-01-01 00:00:00''"]
    by simp
qed

section \<open>Determinism of status decoding\<close>

text \<open>
  C7. Two runs of \<open>decode_status\<close> on the same input, at any two clock readings and with
  any two monitors, agree on status, model, battery, charging and error, and call the
  battery decoder on the same bytes. Only \<open>timestamp\<close> (the clock) and \<open>raw_data\<close> (the
  debug flag) can differ.
\<close>

theorem decode_status_deterministic:
  "dict_get (fst (decode_status self now h)) ''status'' =
     dict_get (fst (decode_status self' now' h)) ''status''
   \<and> dict_get (fst (decode_status self now h)) ''model'' =
     dict_get (fst (decode_status self' now' h)) ''model''
   \<and> dict_get (fst (decode_status self now h)) ''battery'' =
     dict_get (fst (decode_status self' now' h)) ''battery''
   \<and> dict_get (fst (decode_status self now h)) ''charging'' =
     dict_get (fst (decode_status self' now' h)) ''charging''
   \<and> dict_get (fst (decode_status self now h)) ''error'' =
     dict_get (fst (decode_status self' now' h)) ''error''
   \<and> snd (decode_status self now h) = snd (decode_status self' now' h)"
proof (cases "parse_hex h")
  case (Inl e)
  then show ?thesis by (simp add: decode_status_exc)
next
  case (Inr d)
  show ?thesis
  proof (cases "shape_ok d")
    case True
    obtain raw raw' where
      "decode_status self now h =
           (JDict [(''status'', JInt 1),
                   (''model'', JStr ''AirPods Max''),
                   (''battery'', JDict [(''left'', JInt (uint (d ! 12 AND 0x0F))),
                                        (''right'', JInt (uint (d ! 12 AND 0x0F))),
                                        (''case'', JNull)]),
                   (''charging'', JDict [(''left'', JBool (d ! 14 AND 0x80 \<noteq> 0)),
                                         (''right'', JBool (d ! 14 AND 0x80 \<noteq> 0)),
                                         (''case'', JNull)]),
                   (''timestamp'', JStr now),
                   (''raw_data'', raw)],
            [Decode_battery d])"
      "decode_status self' now' h =
           (JDict [(''status'', JInt 1),
                   (''model'', JStr ''AirPods Max''),
                   (''battery'', JDict [(''left'', JInt (uint (d ! 12 AND 0x0F))),
                                        (''right'', JInt (uint (d ! 12 AND 0x0F))),
                                        (''case'', JNull)]),
                   (''charging'', JDict [(''left'', JBool (d ! 14 AND 0x80 \<noteq> 0)),
                                         (''right'', JBool (d ! 14 AND 0x80 \<noteq> 0)),
                                         (''case'', JNull)]),
                   (''timestamp'', JStr now'),
                   (''raw_data'', raw')],
            [Decode_battery d])"
      using decode_status_ok [OF Inr True, of self now] decode_status_ok [OF Inr True, of self' now']
      by blast
    then show ?thesis by simp
  next
    case False
    then show ?thesis using Inr by (simp add: decode_status_unsupported)
  qed
qed

section \<open>Results with status 0\<close>

text \<open>
  C8. Every result with status 0, from \<open>decode_status\<close> (unsupported device, caught
  exception) or from \<open>get_status\<close> (also: no attempt found a payload), has its error entry
  populated and has no battery, charging or model entry.
\<close>

theorem status_zero_has_error_only:
  "(dict_get (fst (decode_status self now h)) ''status'' = Some (JInt 0) \<longrightarrow>
      error_populated (fst (decode_status self now h))
      \<and> ''battery'' \<notin> set (dict_keys (fst (decode_status self now h)))
      \<and> ''charging'' \<notin> set (dict_keys (fst (decode_status self now h)))
      \<and> ''model'' \<notin> set (dict_keys (fst (decode_status self now h))))
   \<and> (dict_get (fst (get_status self src now max_attempts)) ''status'' = Some (JInt 0) \<longrightarrow>
      error_populated (fst (get_status self src now max_attempts))
      \<and> ''battery'' \<notin> set (dict_keys (fst (get_status self src now max_attempts)))
      \<and> ''charging'' \<notin> set (dict_keys (fst (get_status self src now max_attempts)))
      \<and> ''model'' \<notin> set (dict_keys (fst (get_status self src now max_attempts))))"
proof -
  have a: "dict_get (fst (decode_status m now x)) ''status'' = Some (JInt 0) \<longrightarrow>
      error_populated (fst (decode_status m now x))
      \<and> ''battery'' \<notin> set (dict_keys (fst (decode_status m now x)))
      \<and> ''charging'' \<notin> set (dict_keys (fst (decode_status m now x)))
      \<and> ''model'' \<notin> set (dict_keys (fst (decode_status m now x)))" for m x
    using status_zero_decode [of m now x] by simp
  have b: "error_populated not_found \<and> dict_keys not_found = [''status'', ''error'']"
    by (simp add: not_found_def error_populated_def)
  have "fst (get_status self src now max_attempts) = not_found \<or>
        (\<exists>m x. fst (get_status self src now max_attempts) = fst (decode_status m now x))"
    unfolding get_status_def by (rule loop_result)
  then have c: "dict_get (fst (get_status self src now max_attempts)) ''status'' = Some (JInt 0) \<longrightarrow>
      error_populated (fst (get_status self src now max_attempts))
      \<and> ''battery'' \<notin> set (dict_keys (fst (get_status self src now max_attempts)))
      \<and> ''charging'' \<notin> set (dict_keys (fst (get_status self src now max_attempts)))
      \<and> ''model'' \<notin> set (dict_keys (fst (get_status self src now max_attempts)))"
  proof
    assume "fst (get_status self src now max_attempts) = not_found"
    then show ?thesis using b by simp
  next
    assume "\<exists>m x. fst (get_status self src now max_attempts) = fst (decode_status m now x)"
    then obtain m x where "fst (get_status self src now max_attempts) = fst (decode_status m now x)"
      by blast
    then show ?thesis using a [of m x] by simp
  qed
  show ?thesis using a [of self h] c by blast
qed

text \<open>
  The three ways to status 0: text that is not hexadecimal, a payload of the wrong shape,
  and three scans without any advertisement.
\<close>

theorem status_zero_has_error_only_witness:
  "dict_get (fst (decode_status (init_monitor False) ''2024-01-01 00:00:00'' [0x7A, 0x7A]))
     ''status'' = Some (JInt 0)
   \<and> error_populated (fst (decode_status (init_monitor False) ''2024-01-01 00:00:00'' [0x7A, 0x7A]))
   \<and> ''battery'' \<notin> set (dict_keys
         (fst (decode_status (init_monitor False) ''2024-01-01 00:00:00'' [0x7A, 0x7A])))
   \<and> dict_get (fst (decode_status (init_monitor False) ''2024-01-01 00:00:00''
         (hexlify [0x12, 0x34]))) ''status'' = Some (JInt 0)
   \<and> error_populated (fst (decode_status (init_monitor False) ''2024-01-01 00:00:00''
         (hexlify [0x12, 0x34])))
   \<and> ''model'' \<notin> set (dict_keys (fst (decode_status (init_monitor False)
         ''2024-01-01 00:00:00'' (hexlify [0x12, 0x34]))))
   \<and> dict_get (fst (get_status (init_monitor False) (\<lambda>i. scan_of [])
         ''2024-01-01 00:00:00'' 3)) ''status'' = Some (JInt 0)
   \<and> error_populated (fst (get_status (init_monitor False) (\<lambda>i. scan_of [])
         ''2024-01-01 00:00:00'' 3))
   \<and> ''charging'' \<notin> set (dict_keys (fst (get_status (init_monitor False) (\<lambda>i. scan_of [])
         ''2024-01-01 00:00:00'' 3)))"
proof -
  have a: "decode_status (init_monitor False) ''2024-01-01 00:00:00'' [0x7A, 0x7A]
             = (failed ValueError, [])"
    by (simp add: decode_status_exc parse_hex_def cons_ok_def isspace_def hexval_def)
  have b: "decode_status (init_monitor False) ''2024-01-01 00:00:00'' (hexlify [0x12, 0x34])
             = (unsupported, [])"
    by (rule decode_status_hexlify_reject) (simp add: shape_ok_iff)
  have c: "get_status (init_monitor False) (\<lambda>i. scan_of []) ''2024-01-01 00:00:00'' 3
             = (not_found, [Find_airpods, Sleep 1, Find_airpods, Sleep 1, Find_airpods],
                init_monitor False)"
    by (simp add: get_status_def upt_rec find_airpods_def scan_of_def init_monitor_def)
  have sa: "dict_get (failed ValueError) ''status'' = Some (JInt 0)"
    by (simp add: failed_def)
  have sb: "dict_get unsupported ''status'' = Some (JInt 0)"
    by (simp add: unsupported_def)
  have sc: "dict_get not_found ''status'' = Some (JInt 0)"
    by (simp add: not_found_def)
  show ?thesis
    using status_zero_has_error_only
            [of "init_monitor False" "''2024-01-01 00:00:00''" "[0x7A, 0x7A]"
                "\<lambda>i. scan_of []" 3]
          status_zero_has_error_only
            [of "init_monitor False" "''2024-01-01 00:00:00''" "hexlify [0x12, 0x34]"
                "\<lambda>i. scan_of []" 3]
    unfolding a b c fst_conv using sa sb sc by blast
qed

section \<open>Several qualifying advertisements in one scan\<close>

text \<open>
  The claim C3 as the specification states it (the first qualifying advertisement is kept
  and later ones are ignored) fails: with two qualifying advertisements in one scan the
  callback stores the first and then replaces it by the second, and \<open>find_airpods\<close>
  returns the text of the second payload.
\<close>

theorem first_match_counterexample:
  "qualifying (apple_advertisement (- 50) (max_payload 0x01 0x00))
   \<and> qualifying (apple_advertisement (- 50) (max_payload 0x02 0x00))
   \<and> run_callbacks (init_monitor False)
        [(device_at ''AA:01'', apple_advertisement (- 50) (max_payload 0x01 0x00))]
       = (init_monitor False)\<lparr>found_device := Some (device_at ''AA:01''),
                                found_data := Some (max_payload 0x01 0x00)\<rparr>
   \<and> run_callbacks (init_monitor False)
        [(device_at ''AA:01'', apple_advertisement (- 50) (max_payload 0x01 0x00)),
         (device_at ''AA:02'', apple_advertisement (- 50) (max_payload 0x02 0x00))]
       = (init_monitor False)\<lparr>found_device := Some (device_at ''AA:02''),
                                found_data := Some (max_payload 0x02 0x00)\<rparr>
   \<and> fst (find_airpods (init_monitor False) (scan_of
        [(device_at ''AA:01'', apple_advertisement (- 50) (max_payload 0x01 0x00)),
         (device_at ''AA:02'', apple_advertisement (- 50) (max_payload 0x02 0x00))]))
       = Some (hexlify (max_payload 0x02 0x00))
   \<and> max_payload 0x02 0x00 \<noteq> max_payload 0x01 0x00
   \<and> device_at ''AA:02'' \<noteq> device_at ''AA:01''"
proof -
  have ne: "max_payload 0x02 0x00 \<noteq> []"
    by (rule shape_ok_nonempty) (rule shape_ok_max_payload)
  have d: "max_payload 0x02 0x00 \<noteq> max_payload 0x01 0x00"
    by (simp add: max_payload_def)
  show ?thesis
    using ne d
    by (simp add: qualifying_apple shape_ok_max_payload find_airpods_def scan_of_def
          detection_callback_qualifying apple_advertisement_data device_at_def)
qed

text \<open>
  C3, amended. When qualifying advertisements arrive within one scan, exactly one payload
  is captured at its end, namely that of the last qualifying advertisement: it replaces the
  device and payload stored before it, whatever came earlier, and advertisements that do
  not qualify leave them as they are.
\<close>

theorem last_match_wins:
  assumes "manufacturer_data adv AIRPODS_MANUFACTURER = Some data"
    and "shape_ok data"
    and "\<forall>(dev', adv') \<in> set later. \<not> qualifying adv'"
  shows "run_callbacks self (earlier @ (dev, adv) # later) =
           (run_callbacks self earlier)\<lparr>found_device := Some dev, found_data := Some data\<rparr>
         \<and> find_airpods self (scan_of (earlier @ (dev, adv) # later)) =
             (Some (hexlify data),
              (run_callbacks self earlier)\<lparr>found_device := Some dev, found_data := Some data\<rparr>)"
proof -
  have r: "run_callbacks self (earlier @ (dev, adv) # later) =
           (run_callbacks self earlier)\<lparr>found_device := Some dev, found_data := Some data\<rparr>"
    using assms
    by (simp add: run_callbacks_append detection_callback_qualifying run_callbacks_other)
  have "data \<noteq> []"
    using assms(2) by (rule shape_ok_nonempty)
  then show ?thesis
    using r by (simp add: find_airpods_def scan_of_def)
qed

text \<open>
  Two qualifying advertisements followed by one of the wrong shape: the second is kept.
\<close>

theorem last_match_wins_witness:
  "manufacturer_data (apple_advertisement (- 60) (max_payload 0x02 0x00)) AIRPODS_MANUFACTURER
      = Some (max_payload 0x02 0x00)
   \<and> shape_ok (max_payload 0x02 0x00)
   \<and> \<not> qualifying (apple_advertisement (- 40) [0x07, 0x19])
   \<and> find_airpods (init_monitor False) (scan_of
        ([(device_at ''AA:01'', apple_advertisement (- 50) (max_payload 0x01 0x00))]
         @ (device_at ''AA:02'', apple_advertisement (- 60) (max_payload 0x02 0x00))
         # [(device_at ''CC:03'', apple_advertisement (- 40) [0x07, 0x19])])) =
       (Some (hexlify (max_payload 0x02 0x00)),
        (init_monitor False)\<lparr>found_device := Some (device_at ''AA:02''),
                               found_data := Some (max_payload 0x02 0x00)\<rparr>)"
proof -
  have a: "manufacturer_data (apple_advertisement (- 60) (max_payload 0x02 0x00))
             AIRPODS_MANUFACTURER = Some (max_payload 0x02 0x00)"
    by (rule apple_advertisement_data)
  have b: "shape_ok (max_payload 0x02 0x00)"
    by (rule shape_ok_max_payload)
  have c: "\<forall>(dev', adv') \<in> set [(device_at ''CC:03'', apple_advertisement (- 40) [0x07, 0x19])].
         \<not> qualifying adv'"
    by (simp add: qualifying_apple shape_ok_iff)
  have c': "\<not> qualifying (apple_advertisement (- 40) [0x07, 0x19])"
    by (simp add: qualifying_apple shape_ok_iff)
  show ?thesis
    using a b c' last_match_wins [OF a b c, of "init_monitor False"
        "[(device_at ''AA:01'', apple_advertisement (- 50) (max_payload 0x01 0x00))]"
        "device_at ''AA:02''"]
    by (simp add: detection_callback_qualifying apple_advertisement_data shape_ok_max_payload)
qed

section \<open>Signal strength\<close>

text \<open>
  C4. The specification has advertisements below the minimum RSSI discarded before the
  vendor filter. The callback never reads \<open>rssi\<close> or \<open>MIN_RSSI\<close>: an advertisement at
  \<open>-95\<close> dBm, below both the class default \<open>-70\<close> and the command-line default \<open>-90\<close>,
  is captured and returned by the scan.
\<close>

theorem rssi_threshold_not_applied:
  "real_of_int (rssi (apple_advertisement (- 95) (max_payload 0x05 0x80)))
      < MIN_RSSI (init_monitor False)
   \<and> real_of_int (rssi (apple_advertisement (- 95) (max_payload 0x05 0x80)))
      < MIN_RSSI ((init_monitor False)\<lparr>MIN_RSSI := - 90\<rparr>)
   \<and> detection_callback ((init_monitor False)\<lparr>MIN_RSSI := - 90\<rparr>) (device_at ''AA:BB'')
        (apple_advertisement (- 95) (max_payload 0x05 0x80))
       = (init_monitor False)\<lparr>MIN_RSSI := - 90, found_device := Some (device_at ''AA:BB''),
                                found_data := Some (max_payload 0x05 0x80)\<rparr>
   \<and> fst (find_airpods ((init_monitor False)\<lparr>MIN_RSSI := - 90\<rparr>)
        (scan_of [(device_at ''AA:BB'', apple_advertisement (- 95) (max_payload 0x05 0x80))]))
       = Some (hexlify (max_payload 0x05 0x80))"
proof -
  have ne: "max_payload 0x05 0x80 \<noteq> []"
    by (rule shape_ok_nonempty) (rule shape_ok_max_payload)
  have r: "rssi (apple_advertisement (- 95) (max_payload 0x05 0x80)) = - 95"
    by (simp add: apple_advertisement_def)
  show ?thesis
    using ne
    by (simp add: r init_monitor_def find_airpods_def scan_of_def
          detection_callback_qualifying apple_advertisement_data shape_ok_max_payload)
qed

section \<open>The retry loop\<close>




end
